theory Spec2Isabelle
  imports Complex_Main "HOL-Library.Multiset"
begin

section \<open>Strings, numbers and the host platform\<close>

text \<open>
  A JavaScript string is modelled by the bytes of its UTF-8 encoding (\<^typ>\<open>string\<close>), the
  encoding of the source file and of the records sent by the backend. A JavaScript number
  is modelled by the rational it denotes (every finite double is a rational); NaN and the
  infinities do not occur in the record fields. The result of an arithmetic operation on
  numbers is rounded to a double by \<open>roundDouble\<close> below.

  Three operations of the host are not code of the program and depend on the Unicode tables,
  the locale and the double-to-decimal printer of the browser; they are parameters of the
  model: \<open>String.prototype.toLowerCase\<close>, \<open>String.prototype.localeCompare\<close> and the
  conversion of a number to a string in a template literal.
\<close>

record platform =
  toLowerCase :: "string \<Rightarrow> string"
  localeCompare :: "string \<Rightarrow> string \<Rightarrow> int"
  numToString :: "rat \<Rightarrow> string"

text \<open>\<open>s.includes(t)\<close>: \<open>t\<close> occurs in \<open>s\<close> as a contiguous run.\<close>

fun is_prefix :: "string \<Rightarrow> string \<Rightarrow> bool" where
  "is_prefix [] s = True"
| "is_prefix (c # cs) [] = False"
| "is_prefix (c # cs) (d # ds) = (c = d \<and> is_prefix cs ds)"

fun str_includes :: "string \<Rightarrow> string \<Rightarrow> bool" where
  "str_includes [] t = (t = [])"
| "str_includes (c # cs) t = (is_prefix t (c # cs) \<or> str_includes cs t)"

text \<open>\<open>s.split('/').pop()\<close>: what follows the last \<open>/\<close>, the whole string when there is none.\<close>

definition lastSegment :: "string \<Rightarrow> string" where
  "lastSegment s = rev (takeWhile (\<lambda>c. c \<noteq> CHR ''/'') (rev s))"

text \<open>The decimal digits of a natural number, as a template literal prints \<open>array.length\<close>.\<close>

definition digit :: "nat \<Rightarrow> char" where
  "digit d = ''0123456789'' ! d"

fun dec :: "nat \<Rightarrow> string" where
  "dec n = (if n < 10 then [digit n] else dec (n div 10) @ [digit (n mod 10)])"

text \<open>
  Double arithmetic: the exact result of a division, a product or a difference is rounded to
  the nearest number with a significand of 53 bits, to the one with an even significand on a
  tie. \<open>bitlen\<close> is the number of binary digits of a positive integer, \<open>binade x\<close> the
  exponent \<open>e\<close> with \<open>2^e \<le> x < 2^(e+1)\<close> of a positive \<open>x\<close>. The range of the exponent is
  not bounded: the magnitudes at which a double overflows or loses precision (beyond \<open>2^1023\<close>,
  below \<open>2^-1022\<close>) are far from those of scores, percentages and token counts.
\<close>

function bitlen :: "int \<Rightarrow> nat" where
  "bitlen a = (if a \<le> 0 then 0 else Suc (bitlen (a div 2)))"
  by pat_completeness auto
termination
  by (relation "measure nat") auto

definition binade :: "rat \<Rightarrow> int" where
  "binade x =
     (let (a, b) = quotient_of x;
          e0 = int (bitlen a) - int (bitlen b)
      in if 2 powi e0 \<le> x then e0 else e0 - 1)"

definition roundHalfEven :: "rat \<Rightarrow> int" where
  "roundHalfEven y =
     (let f = \<lfloor>y\<rfloor>; d = y - of_int f
      in if d < 1 / 2 then f else if 1 / 2 < d then f + 1 else if even f then f else f + 1)"

definition roundDouble :: "rat \<Rightarrow> rat" where
  "roundDouble x =
     (if x = 0 then 0
      else
        let y = abs x;
            ulp = 2 powi (binade y - 52);
            r = of_int (roundHalfEven (y / ulp)) * ulp
        in if x < 0 then - r else r)"

text \<open>
  \<open>Number.prototype.toFixed(f)\<close> as ECMA-262 defines it on the mathematical value: the sign
  is split off, the magnitude is rounded to the nearest multiple of \<open>10^-f\<close> (the larger one on
  a tie), padded with zeros to at least \<open>f + 1\<close> digits and cut before the last \<open>f\<close> digits.
  From \<open>10^21\<close> on the number is printed as by the ordinary conversion.
\<close>

definition toFixed :: "platform \<Rightarrow> nat \<Rightarrow> rat \<Rightarrow> string" where
  "toFixed P f x =
     (let s = (if x < 0 then ''-'' else '''');
          y = abs x
      in if 10 ^ 21 \<le> y then s @ numToString P y
         else
           let n = nat \<lfloor>y * 10 ^ f + 1 / 2\<rfloor>;
               m = dec n
           in if f = 0 then s @ m
              else
                let z = (if length m \<le> f then replicate (f + 1 - length m) CHR ''0'' @ m else m);
                    k = length z
                in s @ take (k - f) z @ ''.'' @ drop (k - f) z)"

text \<open>
  \<open>escapeHtml\<close> assigns the string to \<open>textContent\<close> of a fresh element and reads \<open>innerHTML\<close>
  back: the HTML fragment serialisation of one text node, which replaces \<open>&\<close>, \<open><\<close>, \<open>>\<close>
  and the no-break space U+00A0 (bytes C2 A0) and copies everything else.
\<close>

fun escapeHtml :: "string \<Rightarrow> string" where
  "escapeHtml [] = []"
| "escapeHtml [c] =
     (if c = CHR ''&'' then ''&amp;''
      else if c = CHR ''<'' then ''&lt;''
      else if c = CHR ''>'' then ''&gt;''
      else [c])"
| "escapeHtml (c # d # cs) =
     (if c = CHR ''&'' then ''&amp;'' @ escapeHtml (d # cs)
      else if c = CHR ''<'' then ''&lt;'' @ escapeHtml (d # cs)
      else if c = CHR ''>'' then ''&gt;'' @ escapeHtml (d # cs)
      else if c = CHR 0xC2 \<and> d = CHR 0xA0 then ''&nbsp;'' @ escapeHtml cs
      else c # escapeHtml (d # cs))"

text \<open>A line break of a template literal followed by its indentation.\<close>

definition nl :: "nat \<Rightarrow> string" where
  "nl k = CHR 0x0A # replicate k CHR '' ''"

text \<open>The glyphs of the templates that lie outside ASCII, in UTF-8.\<close>

definition check_mark :: string where
  "check_mark = [CHR 0xE2, CHR 0x9C, CHR 0x93]"

definition em_dash :: string where
  "em_dash = [CHR 0xE2, CHR 0x80, CHR 0x94]"

definition ballot_x :: string where
  "ballot_x = [CHR 0xE2, CHR 0x9C, CHR 0x97]"

definition middle_dot :: string where
  "middle_dot = [CHR 0xC2, CHR 0xB7]"


section \<open>Records of the first user interface\<close>

text \<open>One element of the array returned by the backend command \<open>get_model_fits\<close>.\<close>

record ModelFit =
  name :: string
  provider :: string
  params :: string
  score :: rat
  fit_level :: string
  fit_emoji :: string
  estimated_tps :: rat
  best_quant :: string
  run_mode :: string
  utilization_pct :: rat
  context_length :: rat
  installed :: bool
  memory_required_gb :: rat
  memory_available_gb :: rat
  score_memory :: rat
  score_speed :: rat
  score_quality :: rat
  score_context :: rat
  category :: string
  use_case :: string
  "notes" :: "string list"

text \<open>
  The value of \<open>a[sortKey]\<close>. The sort key is the \<open>data-sort\<close> attribute of a column header of
  the page or the initial \<open>'score'\<close>; it names a scalar field of the record.
\<close>

datatype field_name =
    Key_name | Key_provider | Key_params | Key_score | Key_fit_level | Key_fit_emoji
  | Key_estimated_tps | Key_best_quant | Key_run_mode | Key_utilization_pct
  | Key_context_length | Key_installed | Key_memory_required_gb | Key_memory_available_gb
  | Key_score_memory | Key_score_speed | Key_score_quality | Key_score_context
  | Key_category | Key_use_case

datatype jsval = JStr string | JNum rat | JBool bool

fun field :: "field_name \<Rightarrow> ModelFit \<Rightarrow> jsval" where
  "field Key_name m = JStr (name m)"
| "field Key_provider m = JStr (provider m)"
| "field Key_params m = JStr (params m)"
| "field Key_score m = JNum (score m)"
| "field Key_fit_level m = JStr (fit_level m)"
| "field Key_fit_emoji m = JStr (fit_emoji m)"
| "field Key_estimated_tps m = JNum (estimated_tps m)"
| "field Key_best_quant m = JStr (best_quant m)"
| "field Key_run_mode m = JStr (run_mode m)"
| "field Key_utilization_pct m = JNum (utilization_pct m)"
| "field Key_context_length m = JNum (context_length m)"
| "field Key_installed m = JBool (installed m)"
| "field Key_memory_required_gb m = JNum (memory_required_gb m)"
| "field Key_memory_available_gb m = JNum (memory_available_gb m)"
| "field Key_score_memory m = JNum (score_memory m)"
| "field Key_score_speed m = JNum (score_speed m)"
| "field Key_score_quality m = JNum (score_quality m)"
| "field Key_score_context m = JNum (score_context m)"
| "field Key_category m = JStr (category m)"
| "field Key_use_case m = JStr (use_case m)"


section \<open>State of the first user interface\<close>

text \<open>
  Arrays are mutable and shared by reference, so they live in a store: \<open>arrs\<close> maps the
  address of an array to its elements and \<open>next_addr\<close> is the next address to hand out.
  The records themselves are never written, so an array holds their values.
  The state has the four module variables and the parts of the page that the program reads
  (the four filter controls) and writes (the count label, the table body, the detail panel
  and the classes of the column headers).
\<close>

type_synonym addr = nat

record state =
  arrs :: "addr \<Rightarrow> ModelFit list option"
  next_addr :: addr
  allModels :: addr
  sortKey :: field_name
  sortAsc :: bool
  selectedModel :: "string option"
  search_value :: string
  filter_fit_value :: string
  filter_category_value :: string
  filter_installed_checked :: bool
  model_count_text :: string
  model_tbody_html :: string
  detail_content_html :: string
  detail_panel_classes :: "string list"
  th_classes :: "field_name \<Rightarrow> string list"

definition alloc :: "state \<Rightarrow> ModelFit list \<Rightarrow> state \<times> addr" where
  "alloc st xs = (st\<lparr>arrs := (arrs st)(next_addr st \<mapsto> xs), next_addr := Suc (next_addr st)\<rparr>, next_addr st)"

text \<open>Reading an array. A reference of the program always points to an allocated array.\<close>

definition deref :: "state \<Rightarrow> addr \<Rightarrow> ModelFit list" where
  "deref st a = (case arrs st a of Some xs \<Rightarrow> xs | None \<Rightarrow> [])"

text \<open>\<open>classList.add\<close> and \<open>classList.remove\<close> on the class list of an element.\<close>

definition classList_add :: "string \<Rightarrow> string list \<Rightarrow> string list" where
  "classList_add c cs = (if c \<in> set cs then cs else cs @ [c])"

definition classList_remove :: "string \<Rightarrow> string list \<Rightarrow> string list" where
  "classList_remove c cs = filter (\<lambda>d. d \<noteq> c) cs"


section \<open>Filtering\<close>

text \<open>The callback of \<open>allModels.filter\<close>, with its four early returns in their order.\<close>

definition passesFilter :: "platform \<Rightarrow> string \<Rightarrow> string \<Rightarrow> string \<Rightarrow> bool \<Rightarrow> ModelFit \<Rightarrow> bool" where
  "passesFilter P search fitFilter catFilter installedOnly m =
     (if search \<noteq> [] \<and> \<not> str_includes (toLowerCase P (name m)) search \<and>
         \<not> str_includes (toLowerCase P (provider m)) search then False
      else if fitFilter \<noteq> ''all'' \<and> fit_level m \<noteq> fitFilter then False
      else if catFilter \<noteq> ''all'' \<and> category m \<noteq> catFilter then False
      else if installedOnly \<and> \<not> installed m then False
      else True)"

definition getFilteredModels :: "platform \<Rightarrow> state \<Rightarrow> state \<times> addr" where
  "getFilteredModels P st =
     (let search = toLowerCase P (search_value st);
          fitFilter = filter_fit_value st;
          catFilter = filter_category_value st;
          installedOnly = filter_installed_checked st
      in alloc st (filter (passesFilter P search fitFilter catFilter installedOnly)
                          (deref st (allModels st))))"


section \<open>Sorting\<close>

text \<open>
  The comparator passed to \<open>sort\<close>. Both operands are read with the same key, so their values
  have the same type; the last case is never reached. The difference of two numbers is a double
  difference; the differences of the values 1 and 0 of two booleans are exact.
\<close>

definition bool_num :: "bool \<Rightarrow> rat" where
  "bool_num b = (if b then 1 else 0)"

definition compareModels :: "platform \<Rightarrow> field_name \<Rightarrow> bool \<Rightarrow> ModelFit \<Rightarrow> ModelFit \<Rightarrow> rat" where
  "compareModels P key asc a b =
     (case (field key a, field key b) of
        (JStr va, JStr vb) \<Rightarrow>
          (let va' = toLowerCase P va; vb' = toLowerCase P vb
           in if asc then of_int (localeCompare P va' vb') else of_int (localeCompare P vb' va'))
      | (JBool va, JBool vb) \<Rightarrow>
          (let va' = bool_num va; vb' = bool_num vb
           in if asc then va' - vb' else vb' - va')
      | (JNum va, JNum vb) \<Rightarrow> (if asc then roundDouble (va - vb) else roundDouble (vb - va))
      | _ \<Rightarrow> 0)"

text \<open>
  \<open>Array.prototype.sort\<close> is specified to be stable: an element moves behind another one only
  when the comparator returns a positive number for the pair. It is modelled by insertion
  from the right.
\<close>

fun insert_by :: "('a \<Rightarrow> 'a \<Rightarrow> rat) \<Rightarrow> 'a \<Rightarrow> 'a list \<Rightarrow> 'a list" where
  "insert_by c x [] = [x]"
| "insert_by c x (y # ys) = (if c x y \<le> 0 then x # y # ys else y # insert_by c x ys)"

definition array_sort :: "('a \<Rightarrow> 'a \<Rightarrow> rat) \<Rightarrow> 'a list \<Rightarrow> 'a list" where
  "array_sort c xs = foldr (insert_by c) xs []"

text \<open>\<open>[...models]\<close> allocates a copy; \<open>sort\<close> then reorders the copy in place and returns it.\<close>

definition sortModels :: "platform \<Rightarrow> state \<Rightarrow> addr \<Rightarrow> state \<times> addr" where
  "sortModels P st models =
     (let (st1, copy) = alloc st (deref st models);
          sorted = array_sort (compareModels P (sortKey st1) (sortAsc st1)) (deref st1 copy)
      in (st1\<lparr>arrs := (arrs st1)(copy \<mapsto> sorted)\<rparr>, copy))"


section \<open>Rendering the table\<close>

text \<open>The template of one table row: the opening tag, the cell with the title and the other cells.\<close>

definition rowOpen :: "string option \<Rightarrow> ModelFit \<Rightarrow> string" where
  \<open>rowOpen sel m =
     nl 4 @ ''<tr class="model-row '' @ (if sel = Some (name m) then ''selected'' else []) @
       ''" data-name="'' @ name m @ ''">''\<close>

definition rowTitleCell :: "ModelFit \<Rightarrow> string" where
  \<open>rowTitleCell m =
     nl 6 @ ''<td>'' @
     nl 8 @ ''<div class="model-name">'' @ escapeHtml (lastSegment (name m)) @ ''</div>'' @
     nl 8 @ ''<div class="model-provider">'' @ escapeHtml (provider m) @ ''</div>'' @
     nl 6 @ ''</td>''\<close>

definition rowCells :: "platform \<Rightarrow> ModelFit \<Rightarrow> string" where
  \<open>rowCells P m =
     nl 6 @ ''<td>'' @ params m @ ''</td>'' @
     nl 6 @ ''<td><strong>'' @ toFixed P 0 (score m) @ ''</strong></td>'' @
     nl 6 @ ''<td><span class="fit-badge fit-'' @ fit_level m @ ''">'' @ fit_emoji m @ '' '' @
       fit_level m @ ''</span></td>'' @
     nl 6 @ ''<td>'' @ toFixed P 1 (estimated_tps m) @ ''</td>'' @
     nl 6 @ ''<td>'' @ best_quant m @ ''</td>'' @
     nl 6 @ ''<td>'' @ run_mode m @ ''</td>'' @
     nl 6 @ ''<td>'' @ toFixed P 0 (utilization_pct m) @ ''%</td>'' @
     nl 6 @ ''<td>'' @ toFixed P 0 (roundDouble (context_length m / 1000)) @ ''k</td>'' @
     nl 6 @ ''<td class="'' @ (if installed m then ''installed-yes'' else ''installed-no'') @ ''">'' @
       (if installed m then check_mark else em_dash) @ ''</td>'' @
     nl 4 @ ''</tr>'' @
     nl 2\<close>

definition rowMarkup :: "platform \<Rightarrow> string option \<Rightarrow> ModelFit \<Rightarrow> string" where
  "rowMarkup P sel m = rowOpen sel m @ rowTitleCell m @ rowCells P m"

definition renderTable :: "platform \<Rightarrow> state \<Rightarrow> state" where
  "renderTable P st =
     (let (st1, f) = getFilteredModels P st;
          (st2, filtered) = sortModels P st1 f
      in st2\<lparr>model_count_text :=
               dec (length (deref st2 filtered)) @ '' of '' @
               dec (length (deref st2 (allModels st2))) @ '' models'',
             model_tbody_html :=
               concat (map (rowMarkup P (selectedModel st2)) (deref st2 filtered))\<rparr>)"


section \<open>The detail panel\<close>

text \<open>
  \<open>scoreBar(label, value, cls)\<close>: the fill is \<open>(value / 30) * 100\<close>, a double division followed by
  a double product, kept within 0 and 100.
\<close>

definition scoreBarPct :: "rat \<Rightarrow> rat" where
  "scoreBarPct v = max 0 (min 100 (roundDouble (roundDouble (v / 30) * 100)))"

definition scoreBar :: "platform \<Rightarrow> string \<Rightarrow> rat \<Rightarrow> string \<Rightarrow> string" where
  \<open>scoreBar P label v cls =
     (let pct = scoreBarPct v
      in nl 4 @ ''<div class="score-bar-container">'' @
         nl 6 @ ''<div class="score-bar-label">'' @
         nl 8 @ ''<span>'' @ label @ ''</span>'' @
         nl 8 @ ''<span>'' @ toFixed P 1 v @ ''</span>'' @
         nl 6 @ ''</div>'' @
         nl 6 @ ''<div class="score-bar">'' @
         nl 8 @ ''<div class="score-bar-fill '' @ cls @ ''" style="width: '' @ numToString P pct @
           ''%"></div>'' @
         nl 6 @ ''</div>'' @
         nl 4 @ ''</div>'' @
         nl 2)\<close>

text \<open>
  The template of \<open>showDetail\<close>, one definition per section of the panel. The width of the
  memory bar is \<open>Math.min(model.utilization_pct, 100)\<close>; its label is
  \<open>model.utilization_pct.toFixed(1)\<close> followed by the percent sign.
\<close>

definition memoryBarWidth :: "ModelFit \<Rightarrow> rat" where
  "memoryBarWidth model = min (utilization_pct model) 100"

definition memoryBarLabel :: "platform \<Rightarrow> ModelFit \<Rightarrow> string" where
  "memoryBarLabel P model = toFixed P 1 (utilization_pct model) @ ''%''"

definition detailHeader :: "ModelFit \<Rightarrow> string" where
  \<open>detailHeader model =
     nl 4 @ ''<div class="detail-header">'' @
     nl 6 @ ''<h2>'' @ escapeHtml (lastSegment (name model)) @ ''</h2>'' @
     nl 6 @ ''<div class="provider">'' @ escapeHtml (provider model) @ '' '' @ middle_dot @ '' '' @
       escapeHtml (name model) @ ''</div>'' @
     nl 4 @ ''</div>''\<close>

definition detailItem :: "string \<Rightarrow> string \<Rightarrow> string" where
  \<open>detailItem label v =
     nl 8 @ ''<div class="detail-item">'' @
     nl 10 @ ''<span class="label">'' @ label @ ''</span>'' @
     nl 10 @ ''<span class="value">'' @ v @ ''</span>'' @
     nl 8 @ ''</div>''\<close>

definition detailFit :: "platform \<Rightarrow> ModelFit \<Rightarrow> string" where
  \<open>detailFit P model =
     nl 4 @ ''<div class="detail-section">'' @
     nl 6 @ ''<h3>Fit Assessment</h3>'' @
     nl 6 @ ''<div class="detail-grid">'' @
     detailItem ''Fit Level''
       (''<span class="fit-badge fit-'' @ fit_level model @ ''">'' @ fit_emoji model @ '' '' @
        fit_level model @ ''</span>'') @
     detailItem ''Overall Score'' (toFixed P 1 (score model)) @
     detailItem ''Est. Speed'' (toFixed P 1 (estimated_tps model) @ '' tok/s'') @
     detailItem ''Run Mode'' (run_mode model) @
     detailItem ''Quantization'' (best_quant model) @
     detailItem ''Context'' (toFixed P 0 (roundDouble (context_length model / 1000)) @ ''k'') @
     nl 6 @ ''</div>'' @
     nl 4 @ ''</div>''\<close>

definition detailMemory :: "platform \<Rightarrow> ModelFit \<Rightarrow> string" where
  \<open>detailMemory P model =
     nl 4 @ ''<div class="detail-section">'' @
     nl 6 @ ''<h3>Memory</h3>'' @
     nl 6 @ ''<div class="detail-grid">'' @
     detailItem ''Required'' (toFixed P 1 (memory_required_gb model) @ '' GB'') @
     detailItem ''Available'' (toFixed P 1 (memory_available_gb model) @ '' GB'') @
     nl 6 @ ''</div>'' @
     nl 6 @ ''<div style="margin-top: 8px">'' @
     nl 8 @ ''<div class="score-bar">'' @
     nl 10 @ ''<div class="score-bar-fill memory" style="width: '' @
       numToString P (memoryBarWidth model) @ ''%"></div>'' @
     nl 8 @ ''</div>'' @
     nl 8 @ ''<div class="score-bar-label">'' @
     nl 10 @ ''<span>Memory utilization</span>'' @
     nl 10 @ ''<span>'' @ memoryBarLabel P model @ ''</span>'' @
     nl 8 @ ''</div>'' @
     nl 6 @ ''</div>'' @
     nl 4 @ ''</div>''\<close>

definition detailScores :: "platform \<Rightarrow> ModelFit \<Rightarrow> string" where
  \<open>detailScores P model =
     nl 4 @ ''<div class="detail-section">'' @
     nl 6 @ ''<h3>Score Breakdown</h3>'' @
     nl 6 @ scoreBar P ''Memory'' (score_memory model) ''memory'' @
     nl 6 @ scoreBar P ''Speed'' (score_speed model) ''speed'' @
     nl 6 @ scoreBar P ''Quality'' (score_quality model) ''quality'' @
     nl 6 @ scoreBar P ''Context'' (score_context model) ''context'' @
     nl 4 @ ''</div>''\<close>

definition detailCategory :: "ModelFit \<Rightarrow> string" where
  \<open>detailCategory model =
     nl 4 @ ''<div class="detail-section">'' @
     nl 6 @ ''<h3>Category</h3>'' @
     nl 6 @ ''<div class="detail-item">'' @
     nl 8 @ ''<span class="value">'' @ escapeHtml (category model) @ '' '' @ em_dash @ '' '' @
       escapeHtml (use_case model) @ ''</span>'' @
     nl 6 @ ''</div>'' @
     nl 4 @ ''</div>''\<close>

definition noteMarkup :: "string \<Rightarrow> string" where
  \<open>noteMarkup n = ''<div class="note">'' @ escapeHtml n @ ''</div>''\<close>

definition detailNotes :: "ModelFit \<Rightarrow> string" where
  \<open>detailNotes model =
     nl 4 @
     (if length (notes model) > 0 then
        nl 6 @ ''<div class="detail-section">'' @
        nl 8 @ ''<h3>Notes</h3>'' @
        nl 8 @ concat (map noteMarkup (notes model)) @
        nl 6 @ ''</div>'' @
        nl 4
      else [])\<close>

definition detailStatus :: "ModelFit \<Rightarrow> string" where
  \<open>detailStatus model =
     nl 4 @ ''<div class="detail-section">'' @
     nl 6 @ ''<h3>Status</h3>'' @
     nl 6 @ ''<div class="detail-item">'' @
     nl 8 @ ''<span class="value '' @
       (if installed model then ''installed-yes'' else ''installed-no'') @ ''">'' @
     nl 10 @ (if installed model then check_mark @ '' Installed'' else ballot_x @ '' Not installed'') @
     nl 8 @ ''</span>'' @
     nl 6 @ ''</div>'' @
     nl 4 @ ''</div>''\<close>

text \<open>The sections are separated by one empty line.\<close>

definition detailMarkup :: "platform \<Rightarrow> ModelFit \<Rightarrow> string" where
  "detailMarkup P model =
     detailHeader model @ nl 0 @
     detailFit P model @ nl 0 @
     detailMemory P model @ nl 0 @
     detailScores P model @ nl 0 @
     detailCategory model @ nl 0 @
     detailNotes model @ nl 0 @
     detailStatus model @
     nl 2"

text \<open>
  \<open>showDetail(name)\<close>: the selection is assigned first; when no record has the name the
  function returns there. Otherwise the panel content is replaced, the panel is made visible
  and the table is rendered again.
\<close>

definition showDetail :: "platform \<Rightarrow> string \<Rightarrow> state \<Rightarrow> state" where
  "showDetail P nm st =
     (let st1 = st\<lparr>selectedModel := Some nm\<rparr>
      in case find (\<lambda>m. name m = nm) (deref st1 (allModels st1)) of
           None \<Rightarrow> st1
         | Some model \<Rightarrow>
             renderTable P
               (st1\<lparr>detail_content_html := detailMarkup P model,
                    detail_panel_classes :=
                      classList_add ''visible''
                        (classList_remove ''hidden'' (detail_panel_classes st1))\<rparr>))"


section \<open>Loading and the event listeners\<close>

text \<open>
  The result of a backend invocation: the promise is rejected with an error (\<open>Inl\<close>) or
  resolves with a fresh array (\<open>Inr\<close>).
\<close>

type_synonym js_error = string

text \<open>\<open>loadModels\<close>: a rejection is only written to the console.\<close>

definition loadModels :: "platform \<Rightarrow> js_error + ModelFit list \<Rightarrow> state \<Rightarrow> state" where
  "loadModels P res st =
     (case res of
        Inr models \<Rightarrow> (let (st1, a) = alloc st models in renderTable P (st1\<lparr>allModels := a\<rparr>))
      | Inl e \<Rightarrow> st)"

text \<open>The listener of the close control.\<close>

definition detailCloseClick :: "platform \<Rightarrow> state \<Rightarrow> state" where
  "detailCloseClick P st =
     renderTable P
       (st\<lparr>selectedModel := None,
           detail_panel_classes :=
             classList_add ''hidden'' (classList_remove ''visible'' (detail_panel_classes st))\<rparr>)"

text \<open>The listener of a column header whose \<open>data-sort\<close> attribute is \<open>key\<close>.\<close>

definition clearSortClasses :: "string list \<Rightarrow> string list" where
  "clearSortClasses cs =
     classList_remove ''desc'' (classList_remove ''asc'' (classList_remove ''sorted'' cs))"

definition headerClick :: "platform \<Rightarrow> field_name \<Rightarrow> state \<Rightarrow> state" where
  "headerClick P key st =
     (let st1 = (if sortKey st = key then st\<lparr>sortAsc := \<not> sortAsc st\<rparr>
                 else st\<lparr>sortKey := key, sortAsc := False\<rparr>);
          st2 = st1\<lparr>th_classes := (\<lambda>t. clearSortClasses (th_classes st1 t))\<rparr>;
          st3 = st2\<lparr>th_classes := (th_classes st2)
                  (key := classList_add (if sortAsc st2 then ''asc'' else ''desc'')
                            (classList_add ''sorted'' (th_classes st2 key)))\<rparr>
      in renderTable P st3)"

text \<open>
  The \<open>keydown\<close> listener of the document. The test \<open>selectedModel\<close> is a truth test: the
  empty string does not pass it. The class \<open>hidden\<close> is not added here.
\<close>

definition keydown :: "platform \<Rightarrow> string \<Rightarrow> state \<Rightarrow> state" where
  "keydown P key st =
     (if key = ''Escape'' \<and> selectedModel st \<noteq> None \<and> selectedModel st \<noteq> Some [] then
        renderTable P
          (st\<lparr>selectedModel := None,
              detail_panel_classes := classList_remove ''visible'' (detail_panel_classes st)\<rparr>)
      else st)"

text \<open>
  The events of the page. An edit of a filter control changes the control and then runs its
  listener, \<open>renderTable\<close>. A click on a row calls \<open>showDetail\<close> with the \<open>data-name\<close> of the
  row. The refresh button runs \<open>loadSystemInfo\<close>, which writes only the system panel and is
  left out, and then \<open>loadModels\<close>.
\<close>

datatype event =
    SearchInput string
  | FitChange string
  | CategoryChange string
  | InstalledChange bool
  | RefreshClick "js_error + ModelFit list"
  | DetailCloseClick
  | HeaderClick field_name
  | KeyDown string
  | RowClick string

fun handle :: "platform \<Rightarrow> event \<Rightarrow> state \<Rightarrow> state" where
  "handle P (SearchInput s) st = renderTable P (st\<lparr>search_value := s\<rparr>)"
| "handle P (FitChange s) st = renderTable P (st\<lparr>filter_fit_value := s\<rparr>)"
| "handle P (CategoryChange s) st = renderTable P (st\<lparr>filter_category_value := s\<rparr>)"
| "handle P (InstalledChange b) st = renderTable P (st\<lparr>filter_installed_checked := b\<rparr>)"
| "handle P (RefreshClick res) st = loadModels P res st"
| "handle P DetailCloseClick st = detailCloseClick P st"
| "handle P (HeaderClick key) st = headerClick P key st"
| "handle P (KeyDown key) st = keydown P key st"
| "handle P (RowClick nm) st = showDetail P nm st"

text \<open>
  The module variables at start: \<open>allModels = []\<close>, \<open>sortKey = 'score'\<close>, \<open>sortAsc = false\<close>,
  \<open>selectedModel = null\<close>. The page part of the state comes from the markup of the page, which
  is given by \<open>page\<close>. The \<open>DOMContentLoaded\<close> listener then loads the records once.
\<close>

definition init_state :: "state \<Rightarrow> state" where
  "init_state page =
     page\<lparr>arrs := Map.empty(0 \<mapsto> []), next_addr := 1, allModels := 0,
          sortKey := Key_score, sortAsc := False, selectedModel := None\<rparr>"

definition domContentLoaded :: "platform \<Rightarrow> js_error + ModelFit list \<Rightarrow> state \<Rightarrow> state" where
  "domContentLoaded P res page = loadModels P res (init_state page)"

fun run :: "platform \<Rightarrow> event list \<Rightarrow> state \<Rightarrow> state" where
  "run P [] st = st"
| "run P (e # es) st = run P es (handle P e st)"

text \<open>
  Every reference of a state built by the program points below \<open>next_addr\<close>, and nothing is
  allocated from \<open>next_addr\<close> on.
\<close>

definition wf_state :: "state \<Rightarrow> bool" where
  "wf_state st = (allModels st < next_addr st \<and> arrs st (allModels st) \<noteq> None \<and>
                  (\<forall>a. next_addr st \<le> a \<longrightarrow> arrs st a = None))"


section \<open>The second user interface\<close>

text \<open>
  The second script keeps the fetched records in \<open>allFits\<close> and writes the table body
  \<open>models-body\<close>. Its arrays are never reordered or written, so they are plain lists.
\<close>

record Fit =
  f_name :: string
  f_params_b :: rat
  f_quant :: string
  f_fit_level :: string
  f_run_mode :: string
  f_score :: rat
  f_estimated_tps :: rat
  f_use_case :: string

record state2 =
  allFits :: "Fit list"
  search2_value :: string
  fit_filter_value :: string
  models_body_html :: string

definition fitClass :: "string \<Rightarrow> string" where
  "fitClass level =
     (if level = ''Perfect'' then ''fit-perfect''
      else if level = ''Good'' then ''fit-good''
      else if level = ''Marginal'' then ''fit-marginal''
      else ''fit-tight'')"

definition modeClass :: "string \<Rightarrow> string" where
  "modeClass mode =
     (if mode = ''GPU'' then ''mode-gpu''
      else if mode = ''MoE Offload'' then ''mode-moe''
      else if mode = ''CPU Offload'' then ''mode-cpuoffload''
      else ''mode-cpuonly'')"

definition fitRowMarkup :: "platform \<Rightarrow> Fit \<Rightarrow> string" where
  \<open>fitRowMarkup P f =
     nl 4 @ ''<tr>'' @
     nl 6 @ ''<td><strong>'' @ f_name f @ ''</strong></td>'' @
     nl 6 @ ''<td>'' @ toFixed P 1 (f_params_b f) @ ''B</td>'' @
     nl 6 @ ''<td>'' @ f_quant f @ ''</td>'' @
     nl 6 @ ''<td class="'' @ fitClass (f_fit_level f) @ ''">'' @ f_fit_level f @ ''</td>'' @
     nl 6 @ ''<td class="'' @ modeClass (f_run_mode f) @ ''">'' @ f_run_mode f @ ''</td>'' @
     nl 6 @ ''<td>'' @ toFixed P 0 (f_score f) @ ''</td>'' @
     nl 6 @ ''<td>'' @ toFixed P 1 (f_estimated_tps f) @ ''</td>'' @
     nl 6 @ ''<td>'' @ f_use_case f @ ''</td>'' @
     nl 4 @ ''</tr>'' @
     nl 2\<close>

definition noModelsRow :: string where
  \<open>noModelsRow = ''<tr><td colspan="8" class="loading">No models found</td></tr>''\<close>

definition errorRow :: string where
  \<open>errorRow = ''<tr><td colspan="8" class="loading">Error loading models</td></tr>''\<close>

definition renderModels :: "platform \<Rightarrow> Fit list \<Rightarrow> state2 \<Rightarrow> state2" where
  "renderModels P fits st =
     (if length fits = 0 then st\<lparr>models_body_html := noModelsRow\<rparr>
      else st\<lparr>models_body_html := concat (map (fitRowMarkup P) fits)\<rparr>)"

definition applyFilters :: "platform \<Rightarrow> state2 \<Rightarrow> state2" where
  "applyFilters P st =
     (let search = toLowerCase P (search2_value st);
          fitFilter = fit_filter_value st;
          filtered = allFits st;
          filtered = (if search \<noteq> [] then
                        filter (\<lambda>f. str_includes (toLowerCase P (f_name f)) search) filtered
                      else filtered);
          filtered = (if fitFilter \<noteq> ''all'' then
                        filter (\<lambda>f. f_fit_level f = fitFilter) filtered
                      else filtered)
      in renderModels P filtered st)"

text \<open>
  \<open>loadModels\<close> of the second script. The invocation resolves with an array or, when the
  backend is not available, with \<open>null\<close> (\<open>None\<close>), which \<open>|| []\<close> turns into the empty array.
  A rejection is logged and replaces the table body by the error row.
\<close>

definition loadModels2 :: "platform \<Rightarrow> js_error + Fit list option \<Rightarrow> state2 \<Rightarrow> state2" where
  "loadModels2 P res st =
     (case res of
        Inr r \<Rightarrow> applyFilters P (st\<lparr>allFits := (case r of Some fits \<Rightarrow> fits | None \<Rightarrow> [])\<rparr>)
      | Inl e \<Rightarrow> st\<lparr>models_body_html := errorRow\<rparr>)"


section \<open>Notions used to state the properties\<close>

text \<open>The filter predicate and the visible rows of a state, as \<open>renderTable\<close> computes them.\<close>

definition currentFilter :: "platform \<Rightarrow> state \<Rightarrow> ModelFit \<Rightarrow> bool" where
  "currentFilter P st =
     passesFilter P (toLowerCase P (search_value st)) (filter_fit_value st)
       (filter_category_value st) (filter_installed_checked st)"

definition visibleModels :: "platform \<Rightarrow> state \<Rightarrow> ModelFit list" where
  "visibleModels P st =
     array_sort (compareModels P (sortKey st) (sortAsc st))
       (filter (currentFilter P st) (deref st (allModels st)))"

text \<open>
  The filter contract in the words of the specification: a record passes when each of the four
  predicates that is active holds. It is compared with \<open>passesFilter\<close> below.
\<close>

definition filterSpec :: "platform \<Rightarrow> string \<Rightarrow> string \<Rightarrow> string \<Rightarrow> bool \<Rightarrow> ModelFit \<Rightarrow> bool" where
  "filterSpec P searchText fitLevelFilter categoryFilter installedOnly m =
     ((searchText \<noteq> [] \<longrightarrow>
         str_includes (toLowerCase P (name m)) (toLowerCase P searchText) \<or>
         str_includes (toLowerCase P (provider m)) (toLowerCase P searchText)) \<and>
      (fitLevelFilter \<noteq> ''all'' \<longrightarrow> fit_level m = fitLevelFilter) \<and>
      (categoryFilter \<noteq> ''all'' \<longrightarrow> category m = categoryFilter) \<and>
      (installedOnly \<longrightarrow> installed m))"

text \<open>
  The order of the table in the words of the specification: \<open>precedes P key asc a b\<close> says that
  \<open>a\<close> may stand before \<open>b\<close>. Strings are lowered and compared by the locale, with the
  operands exchanged for the descending direction; booleans are compared as 1 and 0; numbers
  are compared as numbers. A locale comparison is consistent when it is total and transitive.
\<close>

definition precedes :: "platform \<Rightarrow> field_name \<Rightarrow> bool \<Rightarrow> ModelFit \<Rightarrow> ModelFit \<Rightarrow> bool" where
  "precedes P key asc a b =
     (case (field key a, field key b) of
        (JStr s, JStr t) \<Rightarrow>
          (if asc then localeCompare P (toLowerCase P s) (toLowerCase P t) \<le> 0
           else localeCompare P (toLowerCase P t) (toLowerCase P s) \<le> 0)
      | (JBool p, JBool q) \<Rightarrow>
          (if asc then bool_num p \<le> bool_num q else bool_num q \<le> bool_num p)
      | (JNum x, JNum y) \<Rightarrow> (if asc then x \<le> y else y \<le> x)
      | _ \<Rightarrow> True)"

definition consistentCompare :: "platform \<Rightarrow> bool" where
  "consistentCompare P =
     ((\<forall>s t. localeCompare P s t \<le> 0 \<or> localeCompare P t s \<le> 0) \<and>
      (\<forall>s t u. localeCompare P s t \<le> 0 \<longrightarrow> localeCompare P t u \<le> 0 \<longrightarrow>
         localeCompare P s u \<le> 0))"

text \<open>
  The number of tag delimiters of a piece of markup, and the test that every \<open>&\<close> of it starts
  one of the four character references that the serialisation writes.
\<close>

definition tag_chars :: "string \<Rightarrow> nat" where
  "tag_chars s = length (filter (\<lambda>c. c = CHR ''<'' \<or> c = CHR ''>'') s)"

fun amp_ok :: "string \<Rightarrow> bool" where
  "amp_ok [] = True"
| "amp_ok (c # cs) =
     ((c = CHR ''&'' \<longrightarrow>
         is_prefix ''amp;'' cs \<or> is_prefix ''lt;'' cs \<or> is_prefix ''gt;'' cs \<or>
         is_prefix ''nbsp;'' cs) \<and>
      amp_ok cs)"


section \<open>A concrete platform, two records and a page\<close>

text \<open>
  For evaluation: a platform that lowers the ASCII letters, compares strings byte by byte and
  prints the integer part of a number; the two records of the end-to-end scenario of the
  specification; a page whose controls are in their neutral position and whose detail panel
  is hidden.
\<close>

definition ascii_lower :: "char \<Rightarrow> char" where
  "ascii_lower c =
     (case map_of (zip ''ABCDEFGHIJKLMNOPQRSTUVWXYZ'' ''abcdefghijklmnopqrstuvwxyz'') c of
        Some d \<Rightarrow> d
      | None \<Rightarrow> c)"

fun byte_compare :: "string \<Rightarrow> string \<Rightarrow> int" where
  "byte_compare [] [] = 0"
| "byte_compare [] (d # ds) = - 1"
| "byte_compare (c # cs) [] = 1"
| "byte_compare (c # cs) (d # ds) =
     (if c = d then byte_compare cs ds
      else if (of_char c :: nat) < of_char d then - 1 else 1)"

definition int_printer :: "rat \<Rightarrow> string" where
  "int_printer q = (if q < 0 then ''-'' else []) @ dec (nat \<lfloor>abs q\<rfloor>)"

definition sample_platform :: platform where
  "sample_platform =
     \<lparr>toLowerCase = map ascii_lower, localeCompare = byte_compare, numToString = int_printer\<rparr>"

definition model_a :: ModelFit where
  "model_a =
     \<lparr>name = ''a/x'', provider = ''a'', params = ''7B'', score = 80, fit_level = ''good'',
      fit_emoji = ''+'', estimated_tps = 30, best_quant = ''Q4_K_M'', run_mode = ''gpu'',
      utilization_pct = 55, context_length = 8192, installed = True, memory_required_gb = 4,
      memory_available_gb = 8, score_memory = 20, score_speed = 20, score_quality = 20,
      score_context = 20, category = ''general'', use_case = ''chat'', notes = []\<rparr>"

definition model_b :: ModelFit where
  "model_b =
     \<lparr>name = ''b/y'', provider = ''b'', params = ''13B'', score = 95, fit_level = ''perfect'',
      fit_emoji = ''*'', estimated_tps = 45, best_quant = ''Q8_0'', run_mode = ''gpu'',
      utilization_pct = 40, context_length = 4096, installed = False, memory_required_gb = 3,
      memory_available_gb = 8, score_memory = 25, score_speed = 25, score_quality = 25,
      score_context = 20, category = ''coding'', use_case = ''code'', notes = [''fast'']\<rparr>"

definition blank_page :: state where
  "blank_page =
     \<lparr>arrs = Map.empty, next_addr = 0, allModels = 0, sortKey = Key_score, sortAsc = False,
      selectedModel = None, search_value = [], filter_fit_value = ''all'',
      filter_category_value = ''all'', filter_installed_checked = False,
      model_count_text = [], model_tbody_html = [], detail_content_html = [],
      detail_panel_classes = [''hidden''], th_classes = (\<lambda>t. [])\<rparr>"

text \<open>The page after the first load of the two records, and after the load of no record.\<close>

definition loaded :: state where
  "loaded = domContentLoaded sample_platform (Inr [model_a, model_b]) blank_page"

definition empty_loaded :: state where
  "empty_loaded = domContentLoaded sample_platform (Inr []) blank_page"

text \<open>
  Then the row of \<open>a/x\<close> is clicked, and after that a refresh returns \<open>b/y\<close> alone.
\<close>

definition selected_a :: state where
  "selected_a = handle sample_platform (RowClick ''a/x'') loaded"

definition refreshed_b :: state where
  "refreshed_b = handle sample_platform (RefreshClick (Inr [model_b])) selected_a"

declare dec.simps [simp del]

declare bitlen.simps [simp del]


section \<open>Facts about rounding to a double\<close>

text \<open>Rounding to a double keeps zero and the sign.\<close>

lemma bitlen_bounds: "0 < a \<Longrightarrow> 2 ^ (bitlen a - 1) \<le> a \<and> a < 2 ^ bitlen a"
proof (induction a rule: bitlen.induct)
  case (1 a)
  show ?case
  proof (cases "a div 2 \<le> 0")
    case True
    with 1(2) have "a = 1" by simp
    then show ?thesis by (simp add: bitlen.simps [of 1] bitlen.simps [of 0])
  next
    case False
    then have pos: "0 < a div 2" by simp
    with 1 have ih: "2 ^ (bitlen (a div 2) - 1) \<le> a div 2" "a div 2 < 2 ^ bitlen (a div 2)"
      by auto
    have b: "bitlen a = Suc (bitlen (a div 2))"
      using 1(2) by (simp add: bitlen.simps [of a])
    obtain k where k: "bitlen (a div 2) = Suc k"
      using pos by (simp add: bitlen.simps [of "a div 2"])
    from ih k have "2 * 2 ^ k \<le> a" by simp
    moreover from ih have "a < 2 * 2 ^ bitlen (a div 2)" by linarith
    ultimately show ?thesis using b k by simp
  qed
qed

lemma binade_le:
  assumes "0 < y"
  shows "2 powi binade y \<le> y"
proof -
  obtain a b where q: "quotient_of y = (a, b)" by (cases "quotient_of y")
  have bpos: "0 < b" using q by (rule quotient_of_denom_pos)
  have yab: "y = of_int a / of_int b" using q by (rule quotient_of_div)
  have apos: "0 < a"
    using assms bpos yab by (simp add: zero_less_divide_iff)
  define la where "la = bitlen a"
  define lb where "lb = bitlen b"
  have la: "2 ^ (la - 1) \<le> a" and la1: "0 < la"
    using bitlen_bounds [of a] apos unfolding la_def by (auto simp: bitlen.simps [of a])
  have lb: "b < 2 ^ lb"
    using bitlen_bounds [of b] bpos unfolding lb_def by auto
  have "(2::rat) ^ (la - 1) \<le> of_int a"
  proof -
    have "(of_int (2 ^ (la - 1)) :: rat) \<le> of_int a" using la by (simp only: of_int_le_iff)
    then show ?thesis by simp
  qed
  moreover have "(of_int b :: rat) \<le> 2 ^ lb"
  proof -
    have "(of_int b :: rat) \<le> of_int (2 ^ lb)" using lb by (simp only: of_int_le_iff)
    then show ?thesis by simp
  qed
  ultimately have "(2::rat) ^ (la - 1) / 2 ^ lb \<le> of_int a / of_int b"
    using bpos apos by (intro frac_le) simp_all
  moreover have "(2::rat) powi (int la - int lb - 1) = 2 ^ (la - 1) / 2 ^ lb"
  proof -
    obtain k where k: "la = Suc k" using la1 by (cases la) auto
    have "int la - int lb - 1 = int k - int lb" using k by simp
    then have "(2::rat) powi (int la - int lb - 1) = 2 powi (int k - int lb)" by (simp only:)
    also have "\<dots> = 2 ^ k / 2 ^ lb" by (simp add: power_int_diff)
    finally show ?thesis using k by simp
  qed
  ultimately have low: "(2::rat) powi (int la - int lb - 1) \<le> y" using yab by simp
  show ?thesis
    using low q by (simp add: binade_def Let_def la_def lb_def)
qed

lemma roundHalfEven_pos: "1 \<le> z \<Longrightarrow> 1 \<le> roundHalfEven z"
proof -
  assume "1 \<le> z"
  then have "1 \<le> \<lfloor>z\<rfloor>" by simp
  then show ?thesis by (simp add: roundHalfEven_def Let_def)
qed

lemma roundDouble_pos:
  assumes "0 < x"
  shows "0 < roundDouble x"
proof -
  define ulp :: rat where "ulp = 2 powi (binade x - 52)"
  have up: "0 < ulp" by (simp add: ulp_def)
  have "ulp \<le> 2 powi binade x"
    unfolding ulp_def by (rule power_int_increasing) simp_all
  also have "\<dots> \<le> x" using assms by (rule binade_le)
  finally have "1 \<le> x / ulp" using up by (simp add: le_divide_eq)
  then have "1 \<le> roundHalfEven (x / ulp)" by (rule roundHalfEven_pos)
  then have "0 < (of_int (roundHalfEven (x / ulp)) :: rat) * ulp"
    using up by simp
  then show ?thesis using assms by (simp add: roundDouble_def Let_def ulp_def)
qed

lemma roundDouble_minus: "roundDouble (- x) = - roundDouble x"
  by (simp add: roundDouble_def Let_def)

lemma roundDouble_sign: "(roundDouble x \<le> 0) = (x \<le> 0)"
proof (cases "0 < x")
  case True
  with roundDouble_pos [of x] show ?thesis by simp
next
  case False
  show ?thesis
  proof (cases "x = 0")
    case True
    then show ?thesis by (simp add: roundDouble_def)
  next
    case nz: False
    with False have "0 < - x" by simp
    then have "0 < roundDouble (- x)" by (rule roundDouble_pos)
    then show ?thesis using False by (simp add: roundDouble_minus)
  qed
qed

text \<open>
  The doubles nearest to 2.1 and to 8.192, and the fill of the score bar for the values 20 and
  2.1: the browser prints 66.66666666666666 and 7.000000000000001 for these.
\<close>

lemma roundDouble_examples:
  "roundDouble (21 / 10) = 4728779608739021 / 2 ^ 51"
  "roundDouble (8192 / 1000) = 1152921504606847 / 2 ^ 47"
  "roundDouble 15 = 15"
  by code_simp+

lemma scoreBarPct_examples:
  "scoreBarPct 20 = 2345624805922133 / 2 ^ 45"
  "scoreBarPct (4728779608739021 / 2 ^ 51) = 7 + 1 / 2 ^ 50"
  by code_simp+

lemma scoreBarPct_negative: "v < 0 \<Longrightarrow> scoreBarPct v = 0"
proof -
  assume "v < 0"
  then have "v / 30 < 0" by simp
  then have "roundDouble (v / 30) < 0" using roundDouble_sign [of "v / 30"] roundDouble_pos [of "v / 30"]
    by (metis less_le_not_le linorder_not_less roundDouble_minus neg_0_less_iff_less roundDouble_pos)
  then have "roundDouble (v / 30) * 100 \<le> 0" by simp
  then have "roundDouble (roundDouble (v / 30) * 100) \<le> 0" by (simp only: roundDouble_sign)
  then show ?thesis by (simp add: scoreBarPct_def min_def max_def)
qed


section \<open>Facts about sorting and rendering\<close>

lemma length_insert_by: "length (insert_by c x ys) = Suc (length ys)"
  by (induction ys) auto

lemma length_array_sort: "length (array_sort c xs) = length xs"
  unfolding array_sort_def by (induction xs) (auto simp: length_insert_by)

lemma set_insert_by: "set (insert_by c x ys) = insert x (set ys)"
  by (induction ys) auto

lemma set_array_sort: "set (array_sort c xs) = set xs"
  unfolding array_sort_def by (induction xs) (auto simp: set_insert_by)

text \<open>Under a total and transitive comparator the result of \<open>sort\<close> is ordered by it.\<close>

lemma sorted_insert_by:
  assumes tot: "\<And>x y. c x y \<le> 0 \<or> c y x \<le> 0"
    and trans: "\<And>x y z. c x y \<le> 0 \<Longrightarrow> c y z \<le> 0 \<Longrightarrow> c x z \<le> 0"
  shows "sorted_wrt (\<lambda>x y. c x y \<le> 0) ys \<Longrightarrow> sorted_wrt (\<lambda>x y. c x y \<le> 0) (insert_by c x ys)"
proof (induction ys)
  case Nil
  then show ?case by simp
next
  case (Cons y ys)
  show ?case
  proof (cases "c x y \<le> 0")
    case True
    with Cons.prems trans show ?thesis by auto
  next
    case False
    with tot have "c y x \<le> 0" by blast
    with False Cons show ?thesis by (auto simp: set_insert_by)
  qed
qed

lemma sorted_array_sort:
  assumes tot: "\<And>x y. c x y \<le> 0 \<or> c y x \<le> 0"
    and trans: "\<And>x y z. c x y \<le> 0 \<Longrightarrow> c y z \<le> 0 \<Longrightarrow> c x z \<le> 0"
  shows "sorted_wrt (\<lambda>x y. c x y \<le> 0) (array_sort c xs)"
  unfolding array_sort_def
  by (induction xs) (simp_all add: sorted_insert_by [OF tot trans])

text \<open>The two operands of the comparator always have the same type.\<close>

lemma field_same_type:
  "(\<exists>s t. field key a = JStr s \<and> field key b = JStr t) \<or>
   (\<exists>x y. field key a = JNum x \<and> field key b = JNum y) \<or>
   (\<exists>p q. field key a = JBool p \<and> field key b = JBool q)"
  by (cases key) simp_all

text \<open>Sorting keeps the records and their number of occurrences.\<close>

lemma mset_insert_by: "mset (insert_by c x ys) = add_mset x (mset ys)"
  by (induction ys) auto

lemma mset_array_sort: "mset (array_sort c xs) = mset xs"
  unfolding array_sort_def by (induction xs) (auto simp: mset_insert_by)

text \<open>
  The comparator returns a number that is not positive exactly when its first operand may
  stand before the second in the order of the specification.
\<close>

lemma compareModels_le_0: "(compareModels P key asc a b \<le> 0) = precedes P key asc a b"
  by (cases key) (simp_all add: compareModels_def precedes_def roundDouble_sign Let_def)

lemma precedes_total:
  assumes "consistentCompare P"
  shows "precedes P key asc a b \<or> precedes P key asc b a"
proof -
  have tot: "localeCompare P s t \<le> 0 \<or> localeCompare P t s \<le> 0" for s t
    using assms by (simp add: consistentCompare_def)
  show ?thesis
    using tot by (cases key) (auto simp: precedes_def)
qed

lemma precedes_trans:
  assumes "consistentCompare P"
    and "precedes P key asc a b" and "precedes P key asc b c"
  shows "precedes P key asc a c"
proof -
  have tr: "localeCompare P s t \<le> 0 \<Longrightarrow> localeCompare P t u \<le> 0 \<Longrightarrow> localeCompare P s u \<le> 0"
    for s t u
    using assms(1) by (auto simp: consistentCompare_def)
  show ?thesis
    using assms(2,3) tr
    by (cases key) (auto simp: precedes_def bool_num_def split: if_splits)
qed

lemma sorted_by_precedes:
  assumes "consistentCompare P"
  shows "sorted_wrt (precedes P key asc) (array_sort (compareModels P key asc) xs)"
proof -
  have "sorted_wrt (\<lambda>a b. compareModels P key asc a b \<le> 0)
          (array_sort (compareModels P key asc) xs)"
  proof (rule sorted_array_sort)
    show "compareModels P key asc x y \<le> 0 \<or> compareModels P key asc y x \<le> 0" for x y
      using precedes_total [OF assms] by (simp add: compareModels_le_0)
    show "compareModels P key asc x y \<le> 0 \<Longrightarrow> compareModels P key asc y z \<le> 0 \<Longrightarrow>
          compareModels P key asc x z \<le> 0" for x y z
      using precedes_trans [OF assms] by (simp add: compareModels_le_0)
  qed
  then show ?thesis by (simp add: compareModels_le_0)
qed

text \<open>The comparison of the sample platform is consistent.\<close>

lemma byte_compare_total: "byte_compare s t \<le> 0 \<or> byte_compare t s \<le> 0"
  by (induction s t rule: byte_compare.induct) auto

lemma byte_compare_trans:
  "byte_compare s t \<le> 0 \<Longrightarrow> byte_compare t u \<le> 0 \<Longrightarrow> byte_compare s u \<le> 0"
proof (induction s arbitrary: t u)
  case Nil
  then show ?case by (cases u) auto
next
  case (Cons c cs)
  then show ?case
    by (cases t; cases u) (auto split: if_splits)
qed

lemma sample_consistent: "consistentCompare sample_platform"
  unfolding consistentCompare_def sample_platform_def
  using byte_compare_total byte_compare_trans by auto

text \<open>Reading an array and the invariant of the store do not depend on the rest of the state.\<close>

lemma deref_page_update [simp]:
  "deref (st\<lparr>search_value := s\<rparr>) a = deref st a"
  "deref (st\<lparr>filter_fit_value := s\<rparr>) a = deref st a"
  "deref (st\<lparr>filter_category_value := s\<rparr>) a = deref st a"
  "deref (st\<lparr>filter_installed_checked := b\<rparr>) a = deref st a"
  "deref (st\<lparr>selectedModel := sel\<rparr>) a = deref st a"
  "deref (st\<lparr>detail_content_html := s\<rparr>) a = deref st a"
  "deref (st\<lparr>detail_panel_classes := cs\<rparr>) a = deref st a"
  "deref (st\<lparr>th_classes := f\<rparr>) a = deref st a"
  "deref (st\<lparr>sortKey := k\<rparr>) a = deref st a"
  "deref (st\<lparr>sortAsc := b\<rparr>) a = deref st a"
  by (simp_all add: deref_def)

lemma wf_state_page_update [simp]:
  "wf_state (st\<lparr>search_value := s\<rparr>) = wf_state st"
  "wf_state (st\<lparr>filter_fit_value := s\<rparr>) = wf_state st"
  "wf_state (st\<lparr>filter_category_value := s\<rparr>) = wf_state st"
  "wf_state (st\<lparr>filter_installed_checked := b\<rparr>) = wf_state st"
  "wf_state (st\<lparr>selectedModel := sel\<rparr>) = wf_state st"
  "wf_state (st\<lparr>detail_content_html := s\<rparr>) = wf_state st"
  "wf_state (st\<lparr>detail_panel_classes := cs\<rparr>) = wf_state st"
  "wf_state (st\<lparr>th_classes := f\<rparr>) = wf_state st"
  "wf_state (st\<lparr>sortKey := k\<rparr>) = wf_state st"
  "wf_state (st\<lparr>sortAsc := b\<rparr>) = wf_state st"
  by (simp_all add: wf_state_def)

text \<open>What the three functions of the pipeline do to the state, in closed form.\<close>

lemma getFilteredModels_unfold:
  "getFilteredModels P st =
     (st\<lparr>arrs := (arrs st)(next_addr st \<mapsto> filter (currentFilter P st) (deref st (allModels st))),
         next_addr := Suc (next_addr st)\<rparr>, next_addr st)"
  by (simp add: getFilteredModels_def alloc_def currentFilter_def Let_def)

lemma sortModels_unfold:
  "sortModels P st models =
     (st\<lparr>arrs := (arrs st)(next_addr st \<mapsto>
            array_sort (compareModels P (sortKey st) (sortAsc st)) (deref st models)),
         next_addr := Suc (next_addr st)\<rparr>, next_addr st)"
  by (simp add: sortModels_def alloc_def deref_def Let_def)

lemma sortModels_result:
  "deref (fst (sortModels P st models)) (snd (sortModels P st models)) =
     array_sort (compareModels P (sortKey st) (sortAsc st)) (deref st models)"
  by (simp add: sortModels_unfold deref_def)

lemma renderTable_unfold:
  "renderTable P st =
     st\<lparr>arrs := (arrs st)(next_addr st \<mapsto> filter (currentFilter P st) (deref st (allModels st)),
                           Suc (next_addr st) \<mapsto> visibleModels P st),
        next_addr := Suc (Suc (next_addr st)),
        model_count_text := dec (length (visibleModels P st)) @ '' of '' @
           dec (length (deref (st\<lparr>arrs := (arrs st)
                   (next_addr st \<mapsto> filter (currentFilter P st) (deref st (allModels st)),
                    Suc (next_addr st) \<mapsto> visibleModels P st)\<rparr>) (allModels st))) @ '' models'',
        model_tbody_html := concat (map (rowMarkup P (selectedModel st)) (visibleModels P st))\<rparr>"
  by (simp add: renderTable_def getFilteredModels_unfold sortModels_unfold deref_def
      visibleModels_def currentFilter_def Let_def)

lemma renderTable_frame:
  "allModels (renderTable P st) = allModels st"
  "sortKey (renderTable P st) = sortKey st"
  "sortAsc (renderTable P st) = sortAsc st"
  "selectedModel (renderTable P st) = selectedModel st"
  "search_value (renderTable P st) = search_value st"
  "filter_fit_value (renderTable P st) = filter_fit_value st"
  "filter_category_value (renderTable P st) = filter_category_value st"
  "filter_installed_checked (renderTable P st) = filter_installed_checked st"
  "detail_content_html (renderTable P st) = detail_content_html st"
  "detail_panel_classes (renderTable P st) = detail_panel_classes st"
  "th_classes (renderTable P st) = th_classes st"
  "next_addr (renderTable P st) = Suc (Suc (next_addr st))"
  by (simp_all add: renderTable_unfold)

lemma renderTable_arrs_old:
  "a < next_addr st \<Longrightarrow> arrs (renderTable P st) a = arrs st a"
  by (simp add: renderTable_unfold)

lemma renderTable_deref_old:
  "a < next_addr st \<Longrightarrow> deref (renderTable P st) a = deref st a"
  by (simp add: deref_def renderTable_arrs_old)

lemma renderTable_tbody:
  "model_tbody_html (renderTable P st) =
     concat (map (rowMarkup P (selectedModel st)) (visibleModels P st))"
  by (simp add: renderTable_unfold)

lemma renderTable_count:
  "allModels st < next_addr st \<Longrightarrow>
   model_count_text (renderTable P st) =
     dec (length (filter (currentFilter P st) (deref st (allModels st)))) @ '' of '' @
     dec (length (deref st (allModels st))) @ '' models''"
  by (simp add: renderTable_unfold deref_def visibleModels_def length_array_sort)

lemma loadModels_ok_frame:
  "allModels (loadModels P (Inr ms) st) = next_addr st"
  "next_addr (loadModels P (Inr ms) st) = Suc (Suc (Suc (next_addr st)))"
  "deref (loadModels P (Inr ms) st) (next_addr st) = ms"
  "a < next_addr st \<Longrightarrow> arrs (loadModels P (Inr ms) st) a = arrs st a"
  by (simp_all add: loadModels_def alloc_def renderTable_frame renderTable_arrs_old deref_def)

lemma loadModels_frame:
  "sortKey (loadModels P res st) = sortKey st"
  "sortAsc (loadModels P res st) = sortAsc st"
  "selectedModel (loadModels P res st) = selectedModel st"
  "search_value (loadModels P res st) = search_value st"
  "filter_fit_value (loadModels P res st) = filter_fit_value st"
  "filter_category_value (loadModels P res st) = filter_category_value st"
  "filter_installed_checked (loadModels P res st) = filter_installed_checked st"
  "detail_content_html (loadModels P res st) = detail_content_html st"
  "detail_panel_classes (loadModels P res st) = detail_panel_classes st"
  "th_classes (loadModels P res st) = th_classes st"
  by (simp_all add: loadModels_def alloc_def renderTable_frame split: sum.splits)

lemma find_None_names: "(find (\<lambda>m. name m = nm) xs = None) = (\<forall>m\<in>set xs. name m \<noteq> nm)"
  by (auto simp: find_None_iff)

lemma showDetail_found:
  "find (\<lambda>m. name m = nm) (deref st (allModels st)) = Some model \<Longrightarrow>
   showDetail P nm st =
     renderTable P (st\<lparr>selectedModel := Some nm, detail_content_html := detailMarkup P model,
        detail_panel_classes :=
          classList_add ''visible'' (classList_remove ''hidden'' (detail_panel_classes st))\<rparr>)"
  by (simp add: showDetail_def Let_def)

text \<open>The invariant of the store holds at start and is kept by every listener.\<close>

lemma renderTable_wf: "wf_state st \<Longrightarrow> wf_state (renderTable P st)"
  by (simp add: wf_state_def renderTable_unfold)

lemma init_state_wf: "wf_state (init_state page)"
  by (simp add: wf_state_def init_state_def)

lemma loadModels_wf: "wf_state st \<Longrightarrow> wf_state (loadModels P res st)"
proof (cases res)
  case (Inl e)
  assume "wf_state st"
  with Inl show ?thesis by (simp add: loadModels_def)
next
  case (Inr ms)
  assume "wf_state st"
  then have "wf_state (fst (alloc st ms)\<lparr>allModels := snd (alloc st ms)\<rparr>)"
    by (simp add: wf_state_def alloc_def)
  then have "wf_state (renderTable P (fst (alloc st ms)\<lparr>allModels := snd (alloc st ms)\<rparr>))"
    by (rule renderTable_wf)
  with Inr show ?thesis by (simp add: loadModels_def split_beta)
qed

lemma showDetail_wf: "wf_state st \<Longrightarrow> wf_state (showDetail P nm st)"
  by (simp add: showDetail_def Let_def renderTable_wf split: option.splits)

lemma handle_wf: "wf_state st \<Longrightarrow> wf_state (handle P e st)"
  by (cases e) (simp_all add: renderTable_wf loadModels_wf showDetail_wf detailCloseClick_def
      headerClick_def keydown_def Let_def)

lemma run_wf: "wf_state st \<Longrightarrow> wf_state (run P es st)"
  by (induction es arbitrary: st) (simp_all add: handle_wf)

text \<open>
  After a render, a call of \<open>showDetail\<close> with a name that no record has leaves the table
  body as rendered for the selection before the call, while the selection is the new name.
\<close>

lemma showDetail_unknown_stale_table:
  assumes "wf_state st" and "find (\<lambda>m. name m = nm) (deref st (allModels st)) = None"
  shows "model_tbody_html (showDetail P nm (renderTable P st)) =
           concat (map (rowMarkup P (selectedModel st)) (visibleModels P st)) \<and>
         selectedModel (showDetail P nm (renderTable P st)) = Some nm"
proof -
  have "deref (renderTable P st) (allModels (renderTable P st)) = deref st (allModels st)"
    using assms(1) by (simp add: renderTable_frame renderTable_deref_old wf_state_def)
  with assms(2) show ?thesis
    by (simp add: showDetail_def Let_def renderTable_tbody)
qed

text \<open>The example states.\<close>

lemma loaded_facts:
  "allModels loaded = Suc 0" "next_addr loaded = 4" "deref loaded (Suc 0) = [model_a, model_b]"
  "filter_fit_value loaded = ''all''" "filter_category_value loaded = ''all''"
  "search_value loaded = []" "filter_installed_checked loaded = False"
  "selectedModel loaded = None" "detail_panel_classes loaded = [''hidden'']"
  "sortKey loaded = Key_score" "sortAsc loaded = False"
  using loadModels_ok_frame(1-3) [of sample_platform "[model_a, model_b]" "init_state blank_page"]
  by (simp_all add: loaded_def domContentLoaded_def loadModels_frame init_state_def blank_page_def)

lemma loaded_wf: "wf_state loaded"
  unfolding loaded_def domContentLoaded_def by (rule loadModels_wf) (rule init_state_wf)

lemma loaded_array: "arrs loaded (Suc 0) = Some [model_a, model_b]"
  using loaded_wf loaded_facts(1,3)
  by (auto simp: deref_def wf_state_def split: option.splits)

lemma selected_a_facts:
  "selectedModel selected_a = Some ''a/x''"
  "detail_panel_classes selected_a = [''visible'']"
  "next_addr selected_a = 6"
  "allModels selected_a = Suc 0"
proof -
  have f: "find (\<lambda>m. name m = ''a/x'') (deref loaded (allModels loaded)) = Some model_a"
    by (simp add: loaded_facts model_a_def)
  show "selectedModel selected_a = Some ''a/x''" "detail_panel_classes selected_a = [''visible'']"
     "next_addr selected_a = 6" "allModels selected_a = Suc 0"
    by (simp_all add: selected_a_def showDetail_found [OF f] renderTable_frame loaded_facts
        classList_add_def classList_remove_def)
qed

text \<open>Substrings and the markup.\<close>

lemma str_includes_empty: "str_includes s []"
  by (induction s) auto

lemma str_includes_append_right: "str_includes s t \<Longrightarrow> str_includes (a @ s) t"
  by (induction a) auto

lemma str_includes_prefix: "is_prefix t s \<Longrightarrow> str_includes s t"
  by (cases s) (auto elim: is_prefix.elims)

lemma is_prefix_append: "is_prefix t (t @ b)"
  by (induction t) auto

text \<open>The cell of \<open>params\<close> of a row and the cell of the name of the second table are raw.\<close>

lemma rowMarkup_params_raw:
  "str_includes (rowMarkup P sel m) (''<td>'' @ params m @ ''</td>'')"
proof -
  have "is_prefix (''<td>'' @ params m @ ''</td>'') (''<td>'' @ params m @ ''</td>'' @ r)" for r
    using is_prefix_append [of "''<td>'' @ params m @ ''</td>''" r] by (simp only: append_assoc)
  then show ?thesis
    unfolding rowMarkup_def rowCells_def
    by (intro str_includes_append_right [of _ _ "rowOpen sel m"]
          str_includes_append_right [of _ _ "rowTitleCell m"]
          str_includes_append_right [of _ _ "nl 6"] str_includes_prefix)
qed

lemma fitRowMarkup_name_raw:
  "str_includes (fitRowMarkup P f) (''<td><strong>'' @ f_name f @ ''</strong></td>'')"
proof -
  have "is_prefix (''<td><strong>'' @ f_name f @ ''</strong></td>'')
          (''<td><strong>'' @ f_name f @ ''</strong></td>'' @ r)" for r
    using is_prefix_append [of "''<td><strong>'' @ f_name f @ ''</strong></td>''" r]
    by (simp only: append_assoc)
  then show ?thesis
    unfolding fitRowMarkup_def
    by (intro str_includes_append_right [of _ _ "nl 4"] str_includes_append_right [of _ _ "''<tr>''"]
          str_includes_append_right [of _ _ "nl 6"] str_includes_prefix)
qed

text \<open>The provider is inserted through \<open>escapeHtml\<close> in the same template.\<close>

lemma rowMarkup_provider_escaped:
  \<open>str_includes (rowMarkup P sel m)
     (''<div class="model-provider">'' @ escapeHtml (provider m) @ ''</div>'')\<close>
proof -
  have \<open>is_prefix (''<div class="model-provider">'' @ escapeHtml (provider m) @ ''</div>'')
          (''<div class="model-provider">'' @ escapeHtml (provider m) @ ''</div>'' @ r)\<close> for r
    using is_prefix_append [of \<open>''<div class="model-provider">'' @ escapeHtml (provider m) @ ''</div>''\<close> r]
    by (simp only: append_assoc)
  then show ?thesis
    unfolding rowMarkup_def rowTitleCell_def append_assoc
    by (intro str_includes_append_right [of _ _ "rowOpen sel m"]
          str_includes_append_right [of _ _ "nl 6"]
          str_includes_append_right [of _ _ "''<td>''"]
          str_includes_append_right [of _ _ "nl 8"]
          str_includes_append_right [of _ _ \<open>''<div class="model-name">''\<close>]
          str_includes_append_right [of _ _ "escapeHtml (lastSegment (name m))"]
          str_includes_append_right [of _ _ "''</div>''"]
          str_includes_prefix)
qed

text \<open>What \<open>escapeHtml\<close> returns has no tag delimiter and no bare ampersand.\<close>

lemma tag_chars_append [simp]: "tag_chars (a @ b) = tag_chars a + tag_chars b"
  by (simp add: tag_chars_def)

lemma tag_chars_Nil [simp]: "tag_chars [] = 0"
  by (simp add: tag_chars_def)

lemma tag_chars_Cons [simp]:
  "tag_chars (c # cs) = (if c = CHR ''<'' \<or> c = CHR ''>'' then 1 else 0) + tag_chars cs"
  by (simp add: tag_chars_def)

lemma tag_chars_escapeHtml [simp]: "tag_chars (escapeHtml s) = 0"
  by (induction s rule: escapeHtml.induct) auto

lemma amp_ok_escapeHtml: "amp_ok (escapeHtml s)"
  by (induction s rule: escapeHtml.induct) auto

text \<open>The filter callback agrees with the contract.\<close>

lemma passesFilter_spec:
  assumes "toLowerCase P [] = []"
  shows "passesFilter P (toLowerCase P s) ff cf io m = filterSpec P s ff cf io m"
proof (cases "s = []")
  case True
  with assms show ?thesis by (simp add: passesFilter_def filterSpec_def)
next
  case False
  show ?thesis
  proof (cases "toLowerCase P s = []")
    case True
    with False show ?thesis by (simp add: passesFilter_def filterSpec_def str_includes_empty)
  next
    case nonempty: False
    with False show ?thesis by (auto simp: passesFilter_def filterSpec_def)
  qed
qed

text \<open>The memory bar: the part of the width and of the label that holds.\<close>

lemma memoryBarWidth_upper: "memoryBarWidth m \<le> 100"
  by (simp add: memoryBarWidth_def)

lemma memoryBarWidth_nonneg:
  "0 \<le> utilization_pct m \<Longrightarrow> memoryBarWidth m = max 0 (min 100 (utilization_pct m))"
  by (simp add: memoryBarWidth_def min_def max_def)

lemma floor_rat_numeral:
  "\<lfloor>(numeral a :: rat) / numeral b\<rfloor> = numeral a div numeral b"
  using floor_divide_of_int_eq [of "numeral a" "numeral b", where ?'a = rat] by simp

lemma memoryBar_example:
  "memoryBarWidth (m\<lparr>utilization_pct := 1437 / 10\<rparr>) = 100"
  "memoryBarLabel P (m\<lparr>utilization_pct := 1437 / 10\<rparr>) = ''143.7%''"
  by (simp_all add: memoryBarLabel_def memoryBarWidth_def toFixed_def Let_def dec.simps digit_def
      floor_rat_numeral)


lemma context_example:
  "toFixed P 0 (roundDouble (context_length (m\<lparr>context_length := 8192\<rparr>) / 1000)) @ ''k'' = ''8k''"
proof -
  have r: "roundDouble (1024 / 125) = 1152921504606847 / 140737488355328"
    by code_simp
  show ?thesis
    by (simp add: r toFixed_def Let_def dec.simps digit_def floor_rat_numeral)
qed


section \<open>The properties\<close>

subsection \<open>C1: the selection across a refresh\<close>

text \<open>
  The record \<open>a/x\<close> is selected and the panel is visible; a refresh then returns only \<open>b/y\<close>.
  The selection key is still \<open>a/x\<close> and the panel is still visible: \<open>loadModels\<close> does not
  look at the selection.
\<close>

theorem stale_selection_counterexample:
  "selectedModel selected_a = Some ''a/x'' \<and>
   map name (deref refreshed_b (allModels refreshed_b)) = [''b/y''] \<and>
   selectedModel refreshed_b = Some ''a/x'' \<and>
   detail_panel_classes refreshed_b = [''visible'']"
  using loadModels_ok_frame(3) [of sample_platform "[model_b]" selected_a]
  by (simp add: refreshed_b_def loadModels_frame loadModels_ok_frame(1) selected_a_facts model_b_def)

text \<open>
  C1, as the program has it: a refresh leaves the selection key, the classes of the detail
  panel and the content of the detail panel as they were, whatever the backend returns and
  whether or not the new records contain one with the selected name.
\<close>

theorem refresh_keeps_selection:
  "selectedModel (loadModels P res st) = selectedModel st \<and>
   detail_panel_classes (loadModels P res st) = detail_panel_classes st \<and>
   detail_content_html (loadModels P res st) = detail_content_html st"
  by (simp add: loadModels_frame)

theorem refresh_keeps_selection_witness:
  "selectedModel (loadModels sample_platform (Inr [model_b]) selected_a) = Some ''a/x'' \<and>
   detail_panel_classes (loadModels sample_platform (Inr [model_b]) selected_a) = [''visible'']"
  using refresh_keeps_selection [of sample_platform "Inr [model_b]" selected_a]
  by (simp add: selected_a_facts)


subsection \<open>C2: escaping of the record fields\<close>

text \<open>
  C2 at a record whose \<open>params\<close> is \<open><b>\<close>: the row contains the cell \<open><td><b></td>\<close>, where
  the escaped text would be \<open>&lt;b&gt;\<close>. The same template passes the provider through
  \<open>escapeHtml\<close>: a provider \<open><b>\<close> is rendered as \<open>&lt;b&gt;\<close>.
\<close>

theorem params_inserted_raw:
  \<open>str_includes (rowMarkup sample_platform None (model_a\<lparr>params := ''<b>''\<rparr>)) ''<td><b></td>'' \<and>
   str_includes (rowMarkup sample_platform None (model_a\<lparr>provider := ''<b>''\<rparr>))
     ''<div class="model-provider">&lt;b&gt;</div>'' \<and>
   escapeHtml ''<b>'' = ''&lt;b&gt;''\<close>
  using rowMarkup_params_raw [of sample_platform None "model_a\<lparr>params := ''<b>''\<rparr>"]
    rowMarkup_provider_escaped [of sample_platform None "model_a\<lparr>provider := ''<b>''\<rparr>"]
  by simp


subsection \<open>C3: a failed load\<close>

text \<open>
  In the first interface a failed load changes nothing: after a load of no record and a failed
  refresh the table body and the count label are those of the empty record set, and after a
  failed first load they are those of the page as delivered.
\<close>

theorem load_failure_counterexample:
  "model_tbody_html (handle sample_platform (RefreshClick (Inl ''backend unavailable'')) empty_loaded) =
     model_tbody_html empty_loaded \<and>
   model_count_text (handle sample_platform (RefreshClick (Inl ''backend unavailable'')) empty_loaded) =
     model_count_text empty_loaded \<and>
   deref empty_loaded (allModels empty_loaded) = [] \<and>
   model_tbody_html (domContentLoaded sample_platform (Inl ''backend unavailable'') blank_page) =
     model_tbody_html blank_page"
  using loadModels_ok_frame(1,3) [of sample_platform "[]" "init_state blank_page"]
  by (simp add: loadModels_def empty_loaded_def domContentLoaded_def init_state_def)

text \<open>
  C3, as the program has it: in the second interface a failed \<open>get_model_fits\<close> replaces the
  table body by the row \<open>Error loading models\<close>, which is not the row \<open>No models found\<close> shown
  for an empty record set (or for \<open>null\<close>); in the first interface a failed load leaves the
  whole state as it was.
\<close>

theorem load_failure_display:
  "models_body_html (loadModels2 P (Inl e) st2) = errorRow \<and>
   models_body_html (loadModels2 P (Inr (Some [])) st2) = noModelsRow \<and>
   models_body_html (loadModels2 P (Inr None) st2) = noModelsRow \<and>
   errorRow \<noteq> noModelsRow \<and>
   loadModels P (Inl e) st = st"
  by (simp add: loadModels2_def applyFilters_def renderModels_def Let_def loadModels_def
      errorRow_def noModelsRow_def)

theorem load_failure_display_witness:
  "models_body_html (loadModels2 sample_platform (Inl ''backend unavailable'')
      \<lparr>allFits = [], search2_value = [], fit_filter_value = ''all'', models_body_html = []\<rparr>) =
     errorRow \<and>
   models_body_html (loadModels2 sample_platform (Inr (Some []))
      \<lparr>allFits = [], search2_value = [], fit_filter_value = ''all'', models_body_html = []\<rparr>) =
     noModelsRow \<and>
   errorRow \<noteq> noModelsRow \<and>
   loadModels sample_platform (Inl ''backend unavailable'') loaded = loaded"
  using load_failure_display [of sample_platform "''backend unavailable''"
      "\<lparr>allFits = [], search2_value = [], fit_filter_value = ''all'', models_body_html = []\<rparr>"
      loaded]
  by blast


subsection \<open>C4: the memory bar\<close>

text \<open>
  C4 at a utilisation of \<open>-5\<close>: the width of the bar is \<open>-5\<close>, not the \<open>0\<close> that a clamp to
  the interval from 0 to 100 gives. Only the upper bound is enforced here, while \<open>scoreBar\<close>
  enforces both (\<open>memoryBarWidth_upper\<close>, \<open>memoryBarWidth_nonneg\<close> and \<open>memoryBar_example\<close>
  give the part that holds).
\<close>

theorem memory_bar_no_lower_bound:
  "memoryBarWidth (m\<lparr>utilization_pct := - 5\<rparr>) = - 5 \<and>
   memoryBarWidth (m\<lparr>utilization_pct := - 5\<rparr>) \<noteq> max 0 (min 100 (- 5)) \<and>
   scoreBarPct (- 5) = 0"
  by (simp add: memoryBarWidth_def scoreBarPct_negative)


subsection \<open>C5: the conjunction of the filters\<close>

text \<open>
  C5: the array that \<open>getFilteredModels\<close> returns holds, in their order, exactly the records
  of \<open>allModels\<close> that satisfy the contract \<open>filterSpec\<close> for the values of the four controls;
  so a record is in the output iff it is a record of the set and passes every active
  predicate. The host's \<open>toLowerCase\<close> maps the empty string to itself.
\<close>

theorem filter_conjunction:
  assumes "toLowerCase P [] = []"
  shows "deref (fst (getFilteredModels P st)) (snd (getFilteredModels P st)) =
           filter (filterSpec P (search_value st) (filter_fit_value st)
                     (filter_category_value st) (filter_installed_checked st))
                  (deref st (allModels st)) \<and>
         (m \<in> set (deref (fst (getFilteredModels P st)) (snd (getFilteredModels P st))) \<longleftrightarrow>
            m \<in> set (deref st (allModels st)) \<and>
            filterSpec P (search_value st) (filter_fit_value st)
              (filter_category_value st) (filter_installed_checked st) m)"
proof -
  have "currentFilter P st = filterSpec P (search_value st) (filter_fit_value st)
          (filter_category_value st) (filter_installed_checked st)"
    using assms by (auto simp: currentFilter_def passesFilter_spec)
  then show ?thesis by (auto simp: getFilteredModels_unfold deref_def)
qed

theorem filter_conjunction_witness:
  "toLowerCase sample_platform [] = [] \<and>
   deref (fst (getFilteredModels sample_platform
                 (loaded\<lparr>search_value := ''B'', filter_fit_value := ''perfect''\<rparr>)))
         (snd (getFilteredModels sample_platform
                 (loaded\<lparr>search_value := ''B'', filter_fit_value := ''perfect''\<rparr>)))
     = [model_b] \<and>
   filterSpec sample_platform ''B'' ''perfect'' ''all'' False model_b \<and>
   \<not> filterSpec sample_platform ''B'' ''perfect'' ''all'' False model_a"
proof -
  have h: "toLowerCase sample_platform [] = []" by (simp add: sample_platform_def)
  have s: "filterSpec sample_platform ''B'' ''perfect'' ''all'' False model_b"
          "\<not> filterSpec sample_platform ''B'' ''perfect'' ''all'' False model_a"
    by (simp_all add: filterSpec_def sample_platform_def model_a_def model_b_def ascii_lower_def)
  show ?thesis
    using filter_conjunction [OF h,
        of "loaded\<lparr>search_value := ''B'', filter_fit_value := ''perfect''\<rparr>" model_b] h s
    by (simp add: loaded_facts)
qed


subsection \<open>C6: the order of the table\<close>

text \<open>
  C6: for a consistent locale comparison, the array that \<open>sortModels\<close> returns holds the records
  of its input, each as often as there, in the order of the specification for the sort key and
  the direction of the state, and so do the rows of the rendered table for the records that
  pass the filters. The comparator that produces this order lowers two strings and calls
  \<open>localeCompare\<close>, with the operands exchanged for the descending direction; it compares two
  booleans by the difference of their values 1 and 0; it subtracts two numbers; in each case
  the descending direction exchanges the operands.
\<close>

theorem sort_by_selected_key:
  assumes "consistentCompare P"
  shows "mset (deref (fst (sortModels P st models)) (snd (sortModels P st models))) =
           mset (deref st models) \<and>
         sorted_wrt (precedes P (sortKey st) (sortAsc st))
           (deref (fst (sortModels P st models)) (snd (sortModels P st models))) \<and>
         model_tbody_html (renderTable P st) =
           concat (map (rowMarkup P (selectedModel st)) (visibleModels P st)) \<and>
         mset (visibleModels P st) = mset (filter (currentFilter P st) (deref st (allModels st))) \<and>
         sorted_wrt (precedes P (sortKey st) (sortAsc st)) (visibleModels P st) \<and>
         (field key a = JStr s \<and> field key b = JStr t \<longrightarrow>
            compareModels P key asc a b =
              (if asc then of_int (localeCompare P (toLowerCase P s) (toLowerCase P t))
               else of_int (localeCompare P (toLowerCase P t) (toLowerCase P s)))) \<and>
         (field key a = JBool p \<and> field key b = JBool q \<longrightarrow>
            compareModels P key asc a b =
              (if asc then (if p then 1 else 0) - (if q then 1 else 0)
               else (if q then 1 else 0) - (if p then 1 else 0))) \<and>
         (field key a = JNum x \<and> field key b = JNum y \<longrightarrow>
            compareModels P key asc a b =
              (if asc then roundDouble (x - y) else roundDouble (y - x)))"
proof -
  have 1: "mset (deref (fst (sortModels P st models)) (snd (sortModels P st models))) =
             mset (deref st models)"
    by (simp add: sortModels_result mset_array_sort)
  have 2: "sorted_wrt (precedes P (sortKey st) (sortAsc st))
             (deref (fst (sortModels P st models)) (snd (sortModels P st models)))"
    unfolding sortModels_result using assms by (rule sorted_by_precedes)
  have 3: "mset (visibleModels P st) = mset (filter (currentFilter P st) (deref st (allModels st)))"
    unfolding visibleModels_def by (rule mset_array_sort)
  have 4: "sorted_wrt (precedes P (sortKey st) (sortAsc st)) (visibleModels P st)"
    unfolding visibleModels_def using assms by (rule sorted_by_precedes)
  have 5: "field key a = JStr s \<and> field key b = JStr t \<longrightarrow>
            compareModels P key asc a b =
              (if asc then of_int (localeCompare P (toLowerCase P s) (toLowerCase P t))
               else of_int (localeCompare P (toLowerCase P t) (toLowerCase P s)))"
    by (simp add: compareModels_def Let_def)
  have 6: "field key a = JBool p \<and> field key b = JBool q \<longrightarrow>
            compareModels P key asc a b =
              (if asc then (if p then 1 else 0) - (if q then 1 else 0)
               else (if q then 1 else 0) - (if p then 1 else 0))"
    by (simp add: compareModels_def bool_num_def Let_def)
  have 7: "field key a = JNum x \<and> field key b = JNum y \<longrightarrow>
            compareModels P key asc a b =
              (if asc then roundDouble (x - y) else roundDouble (y - x))"
    by (simp add: compareModels_def)
  show ?thesis
    using 1 2 3 4 5 6 7 renderTable_tbody [of P st] by blast
qed

theorem sort_by_selected_key_witness:
  "consistentCompare sample_platform \<and>
   deref loaded (Suc 0) = [model_a, model_b] \<and>
   deref (fst (sortModels sample_platform loaded (Suc 0)))
         (snd (sortModels sample_platform loaded (Suc 0))) = [model_b, model_a] \<and>
   sorted_wrt (precedes sample_platform Key_score False) [model_b, model_a] \<and>
   compareModels sample_platform Key_name True model_a model_b = - 1 \<and>
   compareModels sample_platform Key_name False model_a model_b = 1 \<and>
   compareModels sample_platform Key_installed True model_a model_b = 1 \<and>
   compareModels sample_platform Key_installed False model_a model_b = - 1 \<and>
   compareModels sample_platform Key_score True model_a model_b = - 15 \<and>
   compareModels sample_platform Key_score False model_a model_b = 15"
proof -
  have out: "deref (fst (sortModels sample_platform loaded (Suc 0)))
                   (snd (sortModels sample_platform loaded (Suc 0))) = [model_b, model_a]"
    by (simp add: sortModels_result loaded_facts array_sort_def compareModels_le_0 precedes_def
        model_a_def model_b_def)
  show ?thesis
    using sort_by_selected_key [OF sample_consistent, where st = loaded and models = "Suc 0"
        and key = Key_name and a = model_a and b = model_b and s = "''a/x''" and t = "''b/y''"
        and asc = True]
      sort_by_selected_key [OF sample_consistent, where st = loaded and models = "Suc 0"
        and key = Key_name and a = model_a and b = model_b and s = "''a/x''" and t = "''b/y''"
        and asc = False]
      sort_by_selected_key [OF sample_consistent, where st = loaded and models = "Suc 0"
        and key = Key_installed and a = model_a and b = model_b and p = True and q = False
        and asc = True]
      sort_by_selected_key [OF sample_consistent, where st = loaded and models = "Suc 0"
        and key = Key_installed and a = model_a and b = model_b and p = True and q = False
        and asc = False]
      sort_by_selected_key [OF sample_consistent, where st = loaded and models = "Suc 0"
        and key = Key_score and a = model_a and b = model_b and x = 80 and y = 95 and asc = True]
      sort_by_selected_key [OF sample_consistent, where st = loaded and models = "Suc 0"
        and key = Key_score and a = model_a and b = model_b and x = 80 and y = 95 and asc = False]
      sample_consistent out
    by (simp add: loaded_facts sample_platform_def model_a_def model_b_def ascii_lower_def
        roundDouble_minus roundDouble_examples)
qed


subsection \<open>C7: a click on a column header\<close>

text \<open>
  C7: after a click on the header of \<open>key\<close> the sort key is \<open>key\<close>; the direction is flipped
  when \<open>key\<close> was the sort key already and is descending otherwise.
\<close>

theorem headerClick_sort_state:
  "sortKey (headerClick P key st) = key \<and>
   sortAsc (headerClick P key st) = (if sortKey st = key then \<not> sortAsc st else False)"
  by (simp add: headerClick_def Let_def renderTable_frame)

theorem headerClick_sort_state_witness:
  "sortKey (headerClick sample_platform Key_score loaded) = Key_score \<and>
   sortAsc (headerClick sample_platform Key_score loaded) = True \<and>
   sortKey (headerClick sample_platform Key_name (headerClick sample_platform Key_score loaded)) =
     Key_name \<and>
   sortAsc (headerClick sample_platform Key_name (headerClick sample_platform Key_score loaded)) =
     False"
  using headerClick_sort_state [of sample_platform Key_score loaded]
    headerClick_sort_state [of sample_platform Key_name "headerClick sample_platform Key_score loaded"]
  by (simp add: loaded_facts)


subsection \<open>C8: the count summary\<close>

text \<open>
  The two records of the scenario with the installed-only filter set: the label is
  \<open>1 of 2 models\<close>, not \<open>1 of 2 records\<close>.
\<close>

theorem count_summary_counterexample:
  "model_count_text (handle sample_platform (InstalledChange True) loaded) = ''1 of 2 models'' \<and>
   model_count_text (handle sample_platform (InstalledChange True) loaded) \<noteq> ''1 of 2 records''"
  by (simp add: renderTable_count loaded_facts currentFilter_def passesFilter_def
     sample_platform_def model_a_def model_b_def digit_def dec.simps)

text \<open>
  C8, as the program has it: after every render the count label is the number of records that
  pass the current filters, \<open>of\<close>, the number of all records, and the word \<open>models\<close>.
\<close>

theorem count_summary:
  assumes "wf_state st"
  shows "model_count_text (renderTable P st) =
           dec (length (filter (currentFilter P st) (deref st (allModels st)))) @ '' of '' @
           dec (length (deref st (allModels st))) @ '' models''"
  using assms by (simp add: renderTable_count wf_state_def)

theorem count_summary_witness:
  "wf_state (loaded\<lparr>filter_installed_checked := True\<rparr>) \<and>
   model_count_text (renderTable sample_platform (loaded\<lparr>filter_installed_checked := True\<rparr>)) =
     ''1 of 2 models''"
proof -
  have w: "wf_state (loaded\<lparr>filter_installed_checked := True\<rparr>)"
    using loaded_wf by simp
  show ?thesis
    using w count_summary [OF w, of sample_platform]
    by (simp add: loaded_facts currentFilter_def passesFilter_def
       sample_platform_def model_a_def model_b_def digit_def dec.simps)
qed


subsection \<open>C9: the pipeline writes no existing array\<close>

text \<open>
  C9: \<open>sortModels\<close> returns an array that did not exist before, different from its input, and
  leaves every array that existed as it was, the input among them; so does
  \<open>getFilteredModels\<close>; and a whole render leaves every existing array, the reference
  \<open>allModels\<close> and the records it points to unchanged.
\<close>

theorem pipeline_leaves_arrays:
  assumes "wf_state st" and "arrs st models \<noteq> None"
  shows "snd (sortModels P st models) \<noteq> models \<and>
         arrs st (snd (sortModels P st models)) = None \<and>
         (\<forall>a. arrs st a \<noteq> None \<longrightarrow> arrs (fst (sortModels P st models)) a = arrs st a) \<and>
         arrs st (snd (getFilteredModels P st)) = None \<and>
         (\<forall>a. arrs st a \<noteq> None \<longrightarrow> arrs (fst (getFilteredModels P st)) a = arrs st a) \<and>
         (\<forall>a. arrs st a \<noteq> None \<longrightarrow> arrs (renderTable P st) a = arrs st a) \<and>
         allModels (renderTable P st) = allModels st \<and>
         deref (renderTable P st) (allModels st) = deref st (allModels st)"
proof -
  have fresh: "arrs st (next_addr st) = None" "arrs st (Suc (next_addr st)) = None"
    using assms(1) by (simp_all add: wf_state_def)
  have old: "a \<noteq> next_addr st \<and> a \<noteq> Suc (next_addr st)" if "arrs st a \<noteq> None" for a
    using that fresh by auto
  have 1: "snd (sortModels P st models) \<noteq> models"
    using assms(2) fresh by (auto simp: sortModels_unfold)
  have 2: "arrs st (snd (sortModels P st models)) = None"
    using fresh by (simp add: sortModels_unfold)
  have 3: "\<forall>a. arrs st a \<noteq> None \<longrightarrow> arrs (fst (sortModels P st models)) a = arrs st a"
    using old by (simp add: sortModels_unfold)
  have 4: "arrs st (snd (getFilteredModels P st)) = None"
    using fresh by (simp add: getFilteredModels_unfold)
  have 5: "\<forall>a. arrs st a \<noteq> None \<longrightarrow> arrs (fst (getFilteredModels P st)) a = arrs st a"
    using old by (simp add: getFilteredModels_unfold)
  have 6: "\<forall>a. arrs st a \<noteq> None \<longrightarrow> arrs (renderTable P st) a = arrs st a"
    using old by (simp add: renderTable_unfold)
  have 7: "deref (renderTable P st) (allModels st) = deref st (allModels st)"
    using assms(1) by (simp add: renderTable_deref_old wf_state_def)
  show ?thesis using 1 2 3 4 5 6 7 by (simp add: renderTable_frame)
qed

theorem pipeline_leaves_arrays_witness:
  "wf_state loaded \<and> arrs loaded (Suc 0) \<noteq> None \<and>
   snd (sortModels sample_platform loaded (Suc 0)) \<noteq> Suc 0 \<and>
   arrs (fst (sortModels sample_platform loaded (Suc 0))) (Suc 0) = Some [model_a, model_b] \<and>
   arrs (renderTable sample_platform loaded) (Suc 0) = Some [model_a, model_b]"
proof -
  have h: "arrs loaded (Suc 0) \<noteq> None" by (simp add: loaded_array)
  show ?thesis
    using pipeline_leaves_arrays [OF loaded_wf h, of sample_platform] loaded_wf loaded_array
    by simp
qed


subsection \<open>C10: a click with a name that no record has\<close>

text \<open>
  C10: when no record of \<open>allModels\<close> has the name, \<open>showDetail\<close> assigns the name to the
  selection and changes nothing else: the panel content, the classes of the panel, the table
  body and the count label stay as they were, and the table is not rendered again.
\<close>

theorem showDetail_unknown_name:
  assumes "\<forall>m\<in>set (deref st (allModels st)). name m \<noteq> nm"
  shows "showDetail P nm st = st\<lparr>selectedModel := Some nm\<rparr>"
proof -
  have "find (\<lambda>m. name m = nm) (deref st (allModels st)) = None"
    using assms by (simp add: find_None_names)
  then show ?thesis by (simp add: showDetail_def Let_def)
qed

theorem showDetail_unknown_name_witness:
  "map name (deref loaded (allModels loaded)) = [''a/x'', ''b/y''] \<and>
   showDetail sample_platform ''c/z'' loaded = loaded\<lparr>selectedModel := Some ''c/z''\<rparr> \<and>
   selectedModel (showDetail sample_platform ''c/z'' loaded) = Some ''c/z'' \<and>
   detail_panel_classes (showDetail sample_platform ''c/z'' loaded) = [''hidden''] \<and>
   model_tbody_html (showDetail sample_platform ''c/z'' loaded) = model_tbody_html loaded"
proof -
  have h: "\<forall>m\<in>set (deref loaded (allModels loaded)). name m \<noteq> ''c/z''"
    by (simp add: loaded_facts model_a_def model_b_def)
  show ?thesis
    using showDetail_unknown_name [OF h, of sample_platform]
    by (simp add: loaded_facts model_a_def model_b_def)
qed

end
